theory Spec2Isabelle
  imports Complex_Main
begin

section \<open>Python floats\<close>

text \<open>
  Balances and amounts are Python \<open>float\<close>s: IEEE-754 binary64 values. A finite value is
  kept as the real number it stands for, with \<open>NegZero\<close> for \<open>-0.0\<close> (\<open>Finite 0\<close> is
  \<open>0.0\<close>) and \<open>Infinity True\<close> for \<open>-inf\<close>. The results of the arithmetic are rounded to
  the nearest double, ties to the even significand, as the hardware does.
\<close>

datatype pyfloat = NaN | Infinity bool | NegZero | Finite real

fun is_finite :: "pyfloat \<Rightarrow> bool" where
  "is_finite NaN = False"
| "is_finite (Infinity s) = False"
| "is_finite NegZero = True"
| "is_finite (Finite r) = True"

text \<open>The real number a finite float stands for.\<close>

fun fval :: "pyfloat \<Rightarrow> real" where
  "fval (Finite r) = r"
| "fval x = 0"

text \<open>The number of binary digits of a natural number.\<close>

fun bitlen :: "nat \<Rightarrow> nat" where
  "bitlen n = (if n = 0 then 0 else Suc (bitlen (n div 2)))"

declare bitlen.simps [simp del]

definition pow2 :: "int \<Rightarrow> real" where
  "pow2 e = (if 0 \<le> e then 2 ^ nat e else 1 / 2 ^ nat (- e))"

text \<open>The binary exponent of a positive magnitude: the \<open>e\<close> with \<open>2^e \<le> m < 2^(e+1)\<close>.\<close>

definition ilog2 :: "real \<Rightarrow> int" where
  "ilog2 m = (if 1 \<le> m then int (bitlen (nat \<lfloor>m\<rfloor>)) - 1
              else - int (bitlen (nat (\<lceil>1 / m\<rceil> - 1))))"

definition round_half_even :: "real \<Rightarrow> int" where
  "round_half_even x = (let f = \<lfloor>x\<rfloor>; d = x - of_int f
     in if d < 1 / 2 then f else if 1 / 2 < d then f + 1 else if even f then f else f + 1)"

text \<open>
  The spacing of the doubles around a magnitude: 53 significant bits, and the fixed
  spacing \<open>2^-1074\<close> of the subnormal range below \<open>2^-1022\<close>.
\<close>

definition ulp :: "real \<Rightarrow> real" where
  "ulp m = pow2 (max (ilog2 m) (- 1022) - 52)"

definition quantize :: "real \<Rightarrow> real \<Rightarrow> real" where
  "quantize m q = of_int (round_half_even (m / q)) * q"

text \<open>The double of sign \<open>s\<close> and rounded magnitude \<open>v\<close>; \<open>2^1024\<close> and more is infinite.\<close>

definition overflow :: "bool \<Rightarrow> real \<Rightarrow> pyfloat" where
  "overflow s v = (if pow2 1024 \<le> v then Infinity s
     else if v = 0 then (if s then NegZero else Finite 0)
     else Finite (if s then - v else v))"

definition round_double :: "real \<Rightarrow> pyfloat" where
  "round_double r = (if r = 0 then Finite 0
     else overflow (r < 0) (quantize (abs r) (ulp (abs r))))"

text \<open>A real number that is the value of a double: rounding leaves it as it is.\<close>

definition representable :: "real \<Rightarrow> bool" where
  "representable r =
     (r = 0 \<or> (abs r < pow2 1024 \<and> of_int \<lfloor>abs r / ulp (abs r)\<rfloor> = abs r / ulp (abs r)))"

fun fneg :: "pyfloat \<Rightarrow> pyfloat" where
  "fneg NaN = NaN"
| "fneg (Infinity s) = Infinity (\<not> s)"
| "fneg NegZero = Finite 0"
| "fneg (Finite r) = (if r = 0 then NegZero else Finite (- r))"

text \<open>\<open>x + y\<close>. An exact zero sum is \<open>-0.0\<close> only when both operands are \<open>-0.0\<close>.\<close>

fun fadd :: "pyfloat \<Rightarrow> pyfloat \<Rightarrow> pyfloat" where
  "fadd NaN y = NaN"
| "fadd x NaN = NaN"
| "fadd (Infinity s) (Infinity t) = (if s = t then Infinity s else NaN)"
| "fadd (Infinity s) y = Infinity s"
| "fadd x (Infinity t) = Infinity t"
| "fadd NegZero NegZero = NegZero"
| "fadd x y = (if fval x + fval y = 0 then Finite 0 else round_double (fval x + fval y))"

text \<open>\<open>x - y\<close> is \<open>x + (-y)\<close>.\<close>

definition fsub :: "pyfloat \<Rightarrow> pyfloat \<Rightarrow> pyfloat" where
  "fsub x y = fadd x (fneg y)"

text \<open>\<open>x <= y\<close> and \<open>x < y\<close>: every comparison with NaN is false.\<close>

fun fle :: "pyfloat \<Rightarrow> pyfloat \<Rightarrow> bool" where
  "fle NaN y = False"
| "fle x NaN = False"
| "fle (Infinity s) (Infinity t) = (s \<or> \<not> t)"
| "fle (Infinity s) y = s"
| "fle x (Infinity t) = (\<not> t)"
| "fle x y = (fval x \<le> fval y)"

fun flt :: "pyfloat \<Rightarrow> pyfloat \<Rightarrow> bool" where
  "flt NaN y = False"
| "flt x NaN = False"
| "flt (Infinity s) (Infinity t) = (s \<and> \<not> t)"
| "flt (Infinity s) y = s"
| "flt x (Infinity t) = (\<not> t)"
| "flt x y = (fval x < fval y)"

text \<open>\<open>x >= y\<close> is \<open>y <= x\<close>.\<close>

definition fge :: "pyfloat \<Rightarrow> pyfloat \<Rightarrow> bool" where
  "fge x y = fle y x"

text \<open>\<open>x == y\<close>: NaN equals nothing, and the two zeros are equal.\<close>

fun feq :: "pyfloat \<Rightarrow> pyfloat \<Rightarrow> bool" where
  "feq NaN y = False"
| "feq x NaN = False"
| "feq (Infinity s) (Infinity t) = (s = t)"
| "feq (Infinity s) y = False"
| "feq x (Infinity t) = False"
| "feq x y = (fval x = fval y)"

text \<open>The literal \<open>0.0\<close>.\<close>

definition zero :: pyfloat where
  "zero = Finite 0"

subsection \<open>The format \<open>.2f\<close>\<close>

definition digit_char :: "nat \<Rightarrow> char" where
  "digit_char d = ''0123456789'' ! d"

fun show_nat :: "nat \<Rightarrow> string" where
  "show_nat n = (if n < 10 then [digit_char n] else show_nat (n div 10) @ [digit_char (n mod 10)])"

text \<open>A magnitude in hundredths, correctly rounded (an exact tie goes to the even one).\<close>

definition hundredths :: "real \<Rightarrow> nat" where
  "hundredths m = nat (round_half_even (m * 100))"

definition fixed2 :: "real \<Rightarrow> string" where
  "fixed2 m = show_nat (hundredths m div 100) @ ''.''
     @ [digit_char (hundredths m div 10 mod 10), digit_char (hundredths m mod 10)]"

fun format_2f :: "pyfloat \<Rightarrow> string" where
  "format_2f NaN = ''nan''"
| "format_2f (Infinity s) = (if s then ''-inf'' else ''inf'')"
| "format_2f NegZero = ''-0.00''"
| "format_2f (Finite r) = (if r < 0 then ''-'' else '''') @ fixed2 (abs r)"

section \<open>Exceptions\<close>

datatype exn =
    UsernameException string
  | PaymentException string
  | CreditCardException string

section \<open>Users and payments\<close>

text \<open>
  A \<open>User\<close> is a mutable object: other users hold it in their friend sets and a payment
  changes two of them. A user is therefore a reference into a store of objects, and the
  methods take the store and return it updated. \<open>User\<close> defines neither \<open>__eq__\<close> nor
  \<open>__hash__\<close>, so membership in \<open>friends\<close> and \<open>target != self\<close> compare references.
\<close>

type_synonym ref = nat

record user =
  username :: string
  credit_card_number :: "string option"
  balance :: pyfloat
  friends :: "ref set"
  activity_feed :: "string list"

type_synonym heap = "ref \<Rightarrow> user"

record payment =
  id' :: string
  amount :: pyfloat
  actor :: ref
  target :: ref
  note' :: string

text \<open>
  \<open>Payment.__init__\<close>. The identifier is drawn by \<open>uuid.uuid4()\<close>; the value drawn is an
  input of the model. \<open>float(amount)\<close> returns a float as it is.
\<close>

definition Payment_init :: "string \<Rightarrow> pyfloat \<Rightarrow> ref \<Rightarrow> ref \<Rightarrow> string \<Rightarrow> payment" where
  "Payment_init uid amt act tgt nt =
     \<lparr>id' = uid, amount = amt, actor = act, target = tgt, note' = nt\<rparr>"

text \<open>\<open>Payment.__str__\<close> reads the two usernames through the references.\<close>

definition Payment_str :: "payment \<Rightarrow> heap \<Rightarrow> string" where
  "Payment_str p h =
     username (h (actor p)) @ '' paid '' @ username (h (target p)) @ '' $''
       @ format_2f (amount p) @ '' for '' @ note' p"

subsection \<open>Validators\<close>

definition is_valid_credit_card :: "string \<Rightarrow> bool" where
  "is_valid_credit_card number = (number \<in> {''4111111111111111'', ''4242424242424242''})"

text \<open>
  The pattern is the raw string \<open>^[A-Za-z0-9_\\-]{4,15}$\<close>. In the class, the two
  backslashes are an escaped backslash and the hyphen that follows, last in the class,
  is a literal hyphen.
\<close>

definition username_char :: "char \<Rightarrow> bool" where
  "username_char c = (let n = (of_char c :: nat) in
     (65 \<le> n \<and> n \<le> 90) \<or> (97 \<le> n \<and> n \<le> 122) \<or> (48 \<le> n \<and> n \<le> 57)
     \<or> c = CHR ''_'' \<or> c = CHR 0x5C \<or> c = CHR ''-'')"

text \<open>\<open>$\<close> without \<open>re.MULTILINE\<close>: the end of the string, or just before a final newline.\<close>

definition dollar :: "string \<Rightarrow> bool" where
  "dollar rest = (rest = [] \<or> rest = [CHR 0x0A])"

text \<open>\<open>re.match\<close>: some repetition count \<open>k\<close> between 4 and 15 lets the rest match.\<close>

definition is_valid_username :: "string \<Rightarrow> bool" where
  "is_valid_username s =
     list_ex (\<lambda>k. k \<le> length s \<and> list_all username_char (take k s) \<and> dollar (drop k s)) [4..<16]"

subsection \<open>The pattern of the spec\<close>

text \<open>
  The spec's words for \<open>isValidUsername\<close>, to compare with \<open>is_valid_username\<close>: the
  whole string is 4 to 15 characters out of letters, digits, underscore and hyphen.
\<close>

definition spec_username_char :: "char \<Rightarrow> bool" where
  "spec_username_char c = (let n = (of_char c :: nat) in
     (65 \<le> n \<and> n \<le> 90) \<or> (97 \<le> n \<and> n \<le> 122) \<or> (48 \<le> n \<and> n \<le> 57)
     \<or> c = CHR ''_'' \<or> c = CHR ''-'')"

definition spec_isValidUsername :: "string \<Rightarrow> bool" where
  "spec_isValidUsername s = (4 \<le> length s \<and> length s \<le> 15 \<and> list_all spec_username_char s)"

subsection \<open>User\<close>

text \<open>\<open>User.__init__\<close>: the object built, or the exception raised.\<close>

definition User_init :: "string \<Rightarrow> exn + user" where
  "User_init uname =
     (if is_valid_username uname
      then Inr \<lparr>username = uname, credit_card_number = None, balance = Finite 0,
                friends = {}, activity_feed = []\<rparr>
      else Inl (UsernameException ''Username not valid.''))"

definition retrieve_feed :: "ref \<Rightarrow> heap \<Rightarrow> string list" where
  "retrieve_feed self h = activity_feed (h self)"

definition add_friend :: "ref \<Rightarrow> ref \<Rightarrow> heap \<Rightarrow> heap" where
  "add_friend self new_friend h =
     (if new_friend \<notin> friends (h self) then
        (let h1 = h(self := (h self)\<lparr>friends := insert new_friend (friends (h self))\<rparr>);
             h2 = h1(new_friend := (h1 new_friend)\<lparr>friends := insert self (friends (h1 new_friend))\<rparr>);
             message = username (h2 self) @ '' and '' @ username (h2 new_friend)
                         @ '' are now friends.'';
             h3 = h2(self := (h2 self)\<lparr>activity_feed := activity_feed (h2 self) @ [message]\<rparr>)
         in h3(new_friend := (h3 new_friend)
                 \<lparr>activity_feed := activity_feed (h3 new_friend) @ [message]\<rparr>))
      else h)"

definition add_to_balance :: "ref \<Rightarrow> pyfloat \<Rightarrow> heap \<Rightarrow> heap" where
  "add_to_balance self amt h = h(self := (h self)\<lparr>balance := fadd (balance (h self)) amt\<rparr>)"

definition add_credit_card :: "ref \<Rightarrow> string \<Rightarrow> heap \<Rightarrow> (exn + unit) \<times> heap" where
  "add_credit_card self number h =
     (if credit_card_number (h self) \<noteq> None
      then (Inl (CreditCardException ''Only one credit card per user!''), h)
      else if is_valid_credit_card number
      then (Inr (), h(self := (h self)\<lparr>credit_card_number := Some number\<rparr>))
      else (Inl (CreditCardException ''Invalid credit card number.''), h))"

text \<open>\<open>_charge_credit_card\<close> is \<open>pass\<close>.\<close>

definition charge_credit_card :: "ref \<Rightarrow> string option \<Rightarrow> heap \<Rightarrow> heap" where
  "charge_credit_card self number h = h"

definition append_feed :: "ref \<Rightarrow> string \<Rightarrow> heap \<Rightarrow> heap" where
  "append_feed self line h = h(self := (h self)\<lparr>activity_feed := activity_feed (h self) @ [line]\<rparr>)"

definition pay_with_balance ::
  "ref \<Rightarrow> ref \<Rightarrow> pyfloat \<Rightarrow> string \<Rightarrow> string \<Rightarrow> heap \<Rightarrow> payment \<times> heap" where
  "pay_with_balance self tgt amt nt uid h =
     (let h1 = h(self := (h self)\<lparr>balance := fsub (balance (h self)) amt\<rparr>);
          p = Payment_init uid amt self tgt nt;
          h2 = add_to_balance tgt amt h1;
          h3 = append_feed self (Payment_str p h2) h2;
          h4 = append_feed tgt (Payment_str p h3) h3
      in (p, h4))"

definition pay_with_card ::
  "ref \<Rightarrow> ref \<Rightarrow> pyfloat \<Rightarrow> string \<Rightarrow> string \<Rightarrow> heap \<Rightarrow> payment \<times> heap" where
  "pay_with_card self tgt amt nt uid h =
     (let h1 = charge_credit_card self (credit_card_number (h self)) h;
          p = Payment_init uid amt self tgt nt;
          h2 = (if tgt \<noteq> self then add_to_balance tgt amt h1 else h1);
          h3 = append_feed self (Payment_str p h2) h2;
          h4 = append_feed tgt (Payment_str p h3) h3
      in (p, h4))"

text \<open>The truth value of \<open>str | None\<close>: \<open>None\<close> and the empty string are false.\<close>

definition truthy :: "string option \<Rightarrow> bool" where
  "truthy v = (case v of None \<Rightarrow> False | Some s \<Rightarrow> s \<noteq> [])"

text \<open>
  \<open>User.pay\<close>. An exception leaves the store as it is at the \<open>raise\<close>; the store is
  returned with the exception.
\<close>

definition pay ::
  "ref \<Rightarrow> ref \<Rightarrow> pyfloat \<Rightarrow> string \<Rightarrow> string \<Rightarrow> heap \<Rightarrow> (exn + payment) \<times> heap" where
  "pay self tgt amt nt uid h =
     (if username (h self) = username (h tgt)
      then (Inl (PaymentException ''User cannot pay themselves.''), h)
      else if fle amt zero
      then (Inl (PaymentException ''Amount must be a positive number.''), h)
      else if fge (balance (h self)) amt
      then (case pay_with_balance self tgt amt nt uid h of (p, h') \<Rightarrow> (Inr p, h'))
      else if truthy (credit_card_number (h self))
      then (case pay_with_card self tgt amt nt uid h of (p, h') \<Rightarrow> (Inr p, h'))
      else (Inl (PaymentException ''Insufficient funds and no credit card available.''), h))"

section \<open>MiniVenmo\<close>

text \<open>
  The registry \<open>users\<close> of a \<open>MiniVenmo\<close>, with the store of the users it holds and the
  next reference that no object has yet.
\<close>

record world =
  heap :: heap
  fresh :: ref
  users :: "string \<rightharpoonup> ref"

definition create_user ::
  "string \<Rightarrow> pyfloat \<Rightarrow> string option \<Rightarrow> world \<Rightarrow> (exn + ref) \<times> world" where
  "create_user uname bal number w =
     (if uname \<in> dom (users w)
      then (Inl (UsernameException ''Username already taken.''), w)
      else (case User_init uname of
          Inl e \<Rightarrow> (Inl e, w)
        | Inr u \<Rightarrow>
            (let r = fresh w;
                 w1 = w\<lparr>heap := (heap w)(r := u), fresh := Suc r\<rparr>;
                 w2 = w1\<lparr>heap := add_to_balance r bal (heap w1)\<rparr>
             in if truthy number
                then (case add_credit_card r (the number) (heap w2) of
                    (Inl e, h3) \<Rightarrow> (Inl e, w2\<lparr>heap := h3\<rparr>)
                  | (Inr _, h3) \<Rightarrow> (Inr r, w2\<lparr>heap := h3, users := (users w2)(uname \<mapsto> r)\<rparr>))
                else (Inr r, w2\<lparr>users := (users w2)(uname \<mapsto> r)\<rparr>))))"

text \<open>\<open>MiniVenmo.__init__\<close>. A reference that no object has yet holds \<open>unallocated\<close>.\<close>

definition unallocated :: user where
  "unallocated = \<lparr>username = [], credit_card_number = None, balance = Finite 0,
                   friends = {}, activity_feed = []\<rparr>"

definition MiniVenmo_init :: world where
  "MiniVenmo_init = \<lparr>heap = (\<lambda>r. unallocated), fresh = 0, users = Map.empty\<rparr>"

subsection \<open>The fixture of the unit tests\<close>

text \<open>
  \<open>TestMiniVenmo.setUp\<close>: Bobby with 5.00 and Carol with 10.00, each with a card.
  Bobby is the object 0 and Carol the object 1.
\<close>

definition setUp :: world where
  "setUp = snd (create_user ''Carol'' (Finite 10) (Some ''4242424242424242'')
             (snd (create_user ''Bobby'' (Finite 5) (Some ''4111111111111111'')
                MiniVenmo_init)))"

definition bobby :: user where
  "bobby = \<lparr>username = ''Bobby'', credit_card_number = Some ''4111111111111111'',
             balance = Finite 5, friends = {}, activity_feed = []\<rparr>"

definition carol :: user where
  "carol = \<lparr>username = ''Carol'', credit_card_number = Some ''4242424242424242'',
             balance = Finite 10, friends = {}, activity_feed = []\<rparr>"

text \<open>
  \<open>test_feed\<close>: Bobby pays Carol 5.00 for Coffee, then Carol pays Bobby 15.00 for Lunch.
\<close>

definition after_coffee :: heap where
  "after_coffee = snd (pay 0 1 (Finite 5) ''Coffee'' ''u1'' (heap setUp))"

definition after_lunch :: heap where
  "after_lunch = snd (pay 1 0 (Finite 15) ''Lunch'' ''u2'' after_coffee)"

subsection \<open>A store with a large balance\<close>

text \<open>
  Bobby is created with 9007199254740994.0 (that is \<open>2^53 + 2\<close>, a double) and Carol
  with 1.0. Above \<open>2^53\<close> the doubles are the even integers.
\<close>

definition rounding_world :: world where
  "rounding_world = snd (create_user ''Carol'' (Finite 1) (Some ''4242424242424242'')
     (snd (create_user ''Bobby'' (Finite 9007199254740994) (Some ''4111111111111111'')
        MiniVenmo_init)))"

section \<open>Invariants of the store\<close>

text \<open>
  A card on file was accepted by \<open>add_credit_card\<close>, the only assignment to the field
  after the constructor's \<open>None\<close>.
\<close>

definition card_ok :: "user \<Rightarrow> bool" where
  "card_ok u = (case credit_card_number u of None \<Rightarrow> True | Some c \<Rightarrow> is_valid_credit_card c)"

text \<open>The friend relation is symmetric: \<open>add_friend\<close> always sets both links.\<close>

definition friends_symmetric :: "heap \<Rightarrow> bool" where
  "friends_symmetric h = (\<forall>a b. b \<in> friends (h a) \<longrightarrow> a \<in> friends (h b))"

section \<open>Evaluating the fixture\<close>

lemmas float_eval = round_double_def overflow_def quantize_def ulp_def ilog2_def
  round_half_even_def pow2_def bitlen.simps

lemma is_valid_username_Bobby: "is_valid_username ''Bobby''"
  by (simp add: is_valid_username_def username_char_def dollar_def)

lemma is_valid_username_Carol: "is_valid_username ''Carol''"
  by (simp add: is_valid_username_def username_char_def dollar_def)

lemma round_double_5: "round_double 5 = Finite 5"
  by (simp add: float_eval)

lemma round_double_10: "round_double 10 = Finite 10"
  by (simp add: float_eval)

lemma setUp_eval:
  "setUp = \<lparr>heap = (\<lambda>r. unallocated)(0 := bobby, 1 := carol), fresh = 2,
            users = [''Bobby'' \<mapsto> 0, ''Carol'' \<mapsto> 1]\<rparr>"
  by (simp add: setUp_def create_user_def MiniVenmo_init_def User_init_def
      is_valid_username_Bobby is_valid_username_Carol round_double_5 round_double_10
      add_to_balance_def add_credit_card_def is_valid_credit_card_def truthy_def
      bobby_def carol_def)

lemma setUp_heap: "heap setUp = (\<lambda>r. unallocated)(0 := bobby, 1 := carol)"
  by (simp add: setUp_eval)

section \<open>Choosing the funding source\<close>

lemma flt_zero_not_fle: "flt zero amt \<Longrightarrow> \<not> fle amt zero"
  by (cases amt) (auto simp: zero_def)

lemma card_ok_truthy:
  "card_ok u \<Longrightarrow> truthy (credit_card_number u) = (credit_card_number u \<noteq> None)"
  by (cases "credit_card_number u") (auto simp: card_ok_def truthy_def is_valid_credit_card_def)

text \<open>
  C1. For every call \<open>pay(target, amount, note)\<close> where the two usernames differ and
  the amount is greater than zero: when the balance of the payer is at least the amount,
  \<open>pay\<close> is \<open>pay_with_balance\<close>; otherwise, when the payer has a card, it is
  \<open>pay_with_card\<close>; otherwise it raises the exception of insufficient funds and the store
  is as before. The card on file is one that \<open>add_credit_card\<close> accepted.
\<close>

theorem pay_funding_source:
  assumes "username (h self) \<noteq> username (h tgt)" and "flt zero amt" and "card_ok (h self)"
  shows "(fge (balance (h self)) amt \<longrightarrow>
            pay self tgt amt nt uid h =
              (case pay_with_balance self tgt amt nt uid h of (p, h') \<Rightarrow> (Inr p, h')))
       \<and> (\<not> fge (balance (h self)) amt \<and> credit_card_number (h self) \<noteq> None \<longrightarrow>
            pay self tgt amt nt uid h =
              (case pay_with_card self tgt amt nt uid h of (p, h') \<Rightarrow> (Inr p, h')))
       \<and> (\<not> fge (balance (h self)) amt \<and> credit_card_number (h self) = None \<longrightarrow>
            pay self tgt amt nt uid h =
              (Inl (PaymentException ''Insufficient funds and no credit card available.''), h))"
proof -
  have pos: "\<not> fle amt zero" using assms(2) by (rule flt_zero_not_fle)
  have card: "truthy (credit_card_number (h self)) = (credit_card_number (h self) \<noteq> None)"
    using assms(3) by (rule card_ok_truthy)
  have none: "\<not> truthy None" by (simp add: truthy_def)
  show ?thesis using assms(1) pos by (simp add: pay_def card none)
qed

text \<open>Bobby, with 5.00, pays Carol 5.00: the balance path.\<close>

theorem pay_funding_source_witness:
  "username (heap setUp 0) \<noteq> username (heap setUp 1) \<and> flt zero (Finite 5)
   \<and> card_ok (heap setUp 0) \<and> fge (balance (heap setUp 0)) (Finite 5)
   \<and> pay 0 1 (Finite 5) ''Coffee'' ''u1'' (heap setUp) =
       (case pay_with_balance 0 1 (Finite 5) ''Coffee'' ''u1'' (heap setUp) of
          (p, h') \<Rightarrow> (Inr p, h'))"
  using pay_funding_source [of "heap setUp" 0 1 "Finite 5" "''Coffee''" "''u1''"]
  by (simp add: setUp_heap bobby_def carol_def zero_def card_ok_def is_valid_credit_card_def
      fge_def)

section \<open>A failing payment changes nothing\<close>

text \<open>
  C4. Whenever \<open>pay\<close> raises, the exception is one of the three of \<open>pay\<close> (self-payment,
  non-positive amount, insufficient funds) and the store after the call is the store
  before it: the balances, feeds, friend sets and cards of all users are unchanged.
\<close>

theorem pay_error_no_mutation:
  assumes "fst (pay self tgt amt nt uid h) = Inl e"
  shows "snd (pay self tgt amt nt uid h) = h
       \<and> e \<in> {PaymentException ''User cannot pay themselves.'',
               PaymentException ''Amount must be a positive number.'',
               PaymentException ''Insufficient funds and no credit card available.''}"
  using assms by (auto simp: pay_def split: if_splits prod.splits)

text \<open>Bobby pays Carol -5.00.\<close>

theorem pay_error_no_mutation_witness:
  "fst (pay 0 1 (Finite (- 5)) ''Coffee'' ''u1'' (heap setUp))
     = Inl (PaymentException ''Amount must be a positive number.'')
   \<and> snd (pay 0 1 (Finite (- 5)) ''Coffee'' ''u1'' (heap setUp)) = heap setUp"
proof -
  have e: "fst (pay 0 1 (Finite (- 5)) ''Coffee'' ''u1'' (heap setUp))
     = Inl (PaymentException ''Amount must be a positive number.'')"
    by (simp add: pay_def setUp_heap bobby_def carol_def zero_def)
  from pay_error_no_mutation [OF e] e show ?thesis by simp
qed

section \<open>The card on file\<close>

lemma card_add_friend: "credit_card_number (add_friend a b h u) = credit_card_number (h u)"
  by (simp add: add_friend_def Let_def)

lemma card_add_to_balance: "credit_card_number (add_to_balance a x h u) = credit_card_number (h u)"
  by (simp add: add_to_balance_def)

lemma card_append_feed: "credit_card_number (append_feed a l h u) = credit_card_number (h u)"
  by (simp add: append_feed_def)

lemma card_pay_with_balance:
  "credit_card_number (snd (pay_with_balance a b x nt uid h) u) = credit_card_number (h u)"
  by (simp add: pay_with_balance_def Let_def card_append_feed card_add_to_balance)

lemma card_pay_with_card:
  "credit_card_number (snd (pay_with_card a b x nt uid h) u) = credit_card_number (h u)"
  by (simp add: pay_with_card_def Let_def card_append_feed card_add_to_balance
      charge_credit_card_def)

lemma card_pay: "credit_card_number (snd (pay a b x nt uid h) u) = credit_card_number (h u)"
  by (simp add: pay_def case_prod_beta card_pay_with_balance card_pay_with_card)

lemma card_add_credit_card_set:
  "credit_card_number (h u) = Some c \<Longrightarrow>
     credit_card_number (snd (add_credit_card a number h) u) = Some c"
  by (auto simp: add_credit_card_def)

lemma card_create_user:
  "u < fresh w \<Longrightarrow>
     credit_card_number (heap (snd (create_user nm bal k w)) u) = credit_card_number (heap w u)"
  by (auto simp: create_user_def Let_def add_to_balance_def add_credit_card_def
      split: sum.splits)

text \<open>What \<open>add_credit_card\<close> stores is a card it accepted, so \<open>card_ok\<close> is kept.\<close>

lemma card_ok_add_credit_card:
  "card_ok (h u) \<Longrightarrow> card_ok (snd (add_credit_card a number h) u)"
  by (auto simp: add_credit_card_def card_ok_def)

lemma card_ok_frame:
  "credit_card_number (h' u) = credit_card_number (h u) \<Longrightarrow> card_ok (h' u) = card_ok (h u)"
  by (simp add: card_ok_def)

lemma card_ok_create_user:
  "fst (create_user nm bal k w) = Inr r \<Longrightarrow> card_ok (heap (snd (create_user nm bal k w)) r)"
  by (auto simp: create_user_def Let_def User_init_def add_to_balance_def add_credit_card_def
      card_ok_def truthy_def split: if_splits option.splits)

text \<open>
  C8. A card, once set, never changes. \<open>add_credit_card\<close> on a user with a card raises
  the exception of a second card whatever the number is, valid or not, and leaves the
  store as it was; and no operation changes the card of that user: not
  \<open>add_credit_card\<close> on any user, nor \<open>add_friend\<close>, \<open>add_to_balance\<close>, \<open>pay\<close>,
  \<open>pay_with_balance\<close> and \<open>pay_with_card\<close>, nor \<open>create_user\<close>, which writes a new object.
\<close>

theorem credit_card_never_changes:
  assumes "credit_card_number (h u) = Some c"
  shows "add_credit_card u number h
           = (Inl (CreditCardException ''Only one credit card per user!''), h)
       \<and> credit_card_number (snd (add_credit_card a number h) u) = Some c
       \<and> credit_card_number (add_friend a b h u) = Some c
       \<and> credit_card_number (add_to_balance a x h u) = Some c
       \<and> credit_card_number (snd (pay a b x nt uid h) u) = Some c
       \<and> credit_card_number (snd (pay_with_balance a b x nt uid h) u) = Some c
       \<and> credit_card_number (snd (pay_with_card a b x nt uid h) u) = Some c
       \<and> (u < fresh w \<and> heap w = h \<longrightarrow>
            credit_card_number (heap (snd (create_user nm bal k w)) u) = Some c)"
proof -
  have dup: "add_credit_card u number h
           = (Inl (CreditCardException ''Only one credit card per user!''), h)"
    using assms by (simp add: add_credit_card_def)
  show ?thesis
    using assms dup
    by (simp add: card_add_credit_card_set card_add_friend card_add_to_balance card_pay
        card_pay_with_balance card_pay_with_card card_create_user)
qed

text \<open>Bobby's card after a second \<open>add_credit_card\<close> and after Dave is created.\<close>

theorem credit_card_never_changes_witness:
  "credit_card_number (heap setUp 0) = Some ''4111111111111111''
   \<and> add_credit_card 0 ''4242424242424242'' (heap setUp)
       = (Inl (CreditCardException ''Only one credit card per user!''), heap setUp)
   \<and> credit_card_number (heap (snd (create_user ''Dave'' (Finite 1) None setUp)) 0)
       = Some ''4111111111111111''"
proof -
  have c: "credit_card_number (heap setUp 0) = Some ''4111111111111111''"
    by (simp add: setUp_heap bobby_def)
  have f: "0 < fresh setUp" by (simp add: setUp_eval)
  from credit_card_never_changes [where h = "heap setUp" and u = 0
      and c = "''4111111111111111''" and number = "''4242424242424242''" and w = setUp
      and nm = "''Dave''" and bal = "Finite 1" and k = None]
    c f show ?thesis by simp
qed

section \<open>Creating a user\<close>

lemma is_valid_username_Dave: "is_valid_username ''Dave''"
  by (simp add: is_valid_username_def username_char_def dollar_def)

text \<open>
  C10. Whenever \<open>create_user\<close> raises, the registry \<open>users\<close> is unchanged. In particular,
  for a free and valid username and a card number that is not accepted, \<open>create_user\<close>
  raises the exception of an invalid card and the username is not registered.
\<close>

theorem create_user_error_registry_unchanged:
  "(fst (create_user nm bal number w) = Inl e \<longrightarrow>
      users (snd (create_user nm bal number w)) = users w)
   \<and> (nm \<notin> dom (users w) \<and> is_valid_username nm \<and> k \<noteq> [] \<and> \<not> is_valid_credit_card k \<longrightarrow>
        fst (create_user nm bal (Some k) w)
          = Inl (CreditCardException ''Invalid credit card number.'')
      \<and> users (snd (create_user nm bal (Some k) w)) nm = None)"
  by (auto simp: create_user_def Let_def User_init_def truthy_def add_credit_card_def
      add_to_balance_def split: if_splits sum.splits prod.splits)

text \<open>Dave with the card number 1234 on top of the fixture.\<close>

theorem create_user_error_registry_unchanged_witness:
  "fst (create_user ''Dave'' (Finite 1) (Some ''1234'') setUp)
     = Inl (CreditCardException ''Invalid credit card number.'')
   \<and> users (snd (create_user ''Dave'' (Finite 1) (Some ''1234'') setUp)) = users setUp
   \<and> users (snd (create_user ''Dave'' (Finite 1) (Some ''1234'') setUp)) ''Dave'' = None"
proof -
  have free: "''Dave'' \<notin> dom (users setUp)" by (simp add: setUp_eval)
  have bad: "\<not> is_valid_credit_card ''1234''" by (simp add: is_valid_credit_card_def)
  from create_user_error_registry_unchanged [where nm = "''Dave''" and bal = "Finite 1"
      and number = "Some ''1234''" and k = "''1234''" and w = setUp
      and e = "CreditCardException ''Invalid credit card number.''"]
    free bad is_valid_username_Dave
  show ?thesis by (simp add: domIff)
qed

section \<open>Friends\<close>

lemma add_friend_new:
  assumes "a \<noteq> b" and "b \<notin> friends (h a)"
  shows "add_friend a b h = h
    (a := (h a)\<lparr>friends := insert b (friends (h a)),
                activity_feed := activity_feed (h a)
                  @ [username (h a) @ '' and '' @ username (h b) @ '' are now friends.'']\<rparr>,
     b := (h b)\<lparr>friends := insert a (friends (h b)),
                activity_feed := activity_feed (h b)
                  @ [username (h a) @ '' and '' @ username (h b) @ '' are now friends.'']\<rparr>)"
  using assms by (auto simp: add_friend_def Let_def fun_eq_iff)

lemma add_friend_old: "b \<in> friends (h a) \<Longrightarrow> add_friend a b h = h"
  by (simp add: add_friend_def)

text \<open>Every operation keeps the friend relation symmetric.\<close>

lemma friends_symmetric_add_friend:
  "friends_symmetric h \<Longrightarrow> friends_symmetric (add_friend a b h)"
  by (auto simp: friends_symmetric_def add_friend_def Let_def)

lemma friends_add_to_balance: "friends (add_to_balance a x h u) = friends (h u)"
  by (simp add: add_to_balance_def)

lemma friends_append_feed: "friends (append_feed a l h u) = friends (h u)"
  by (simp add: append_feed_def)

lemma friends_pay: "friends (snd (pay a b x nt uid h) u) = friends (h u)"
  by (simp add: pay_def case_prod_beta pay_with_balance_def pay_with_card_def Let_def
      charge_credit_card_def friends_append_feed friends_add_to_balance)

lemma friends_add_credit_card: "friends (snd (add_credit_card a number h) u) = friends (h u)"
  by (simp add: add_credit_card_def)

lemma friends_symmetric_frame:
  "\<forall>u. friends (h' u) = friends (h u) \<Longrightarrow> friends_symmetric h' = friends_symmetric h"
  by (simp add: friends_symmetric_def)

lemma friends_symmetric_pay:
  "friends_symmetric h \<Longrightarrow> friends_symmetric (snd (pay a b x nt uid h))"
  by (simp add: friends_symmetric_def friends_pay)

lemma friends_symmetric_setUp: "friends_symmetric (heap setUp)"
  by (simp add: friends_symmetric_def setUp_heap bobby_def carol_def unallocated_def)

text \<open>
  C7. \<open>add_friend\<close> is idempotent. For two distinct users whose friend sets agree on
  each other (the relation is symmetric), a second call for the same pair, in either
  direction, changes nothing. When the two are not friends yet, the first call appends
  one message, the same, to the feed of each and puts each into the friend set of the
  other; when they are friends already, the first call changes nothing either.
\<close>

theorem add_friend_idempotent:
  assumes "a \<noteq> b" and "(b \<in> friends (h a)) = (a \<in> friends (h b))"
  shows "add_friend a b (add_friend a b h) = add_friend a b h
       \<and> add_friend b a (add_friend a b h) = add_friend a b h
       \<and> (b \<notin> friends (h a) \<longrightarrow>
            activity_feed (add_friend a b h a) = activity_feed (h a)
              @ [username (h a) @ '' and '' @ username (h b) @ '' are now friends.'']
          \<and> activity_feed (add_friend a b h b) = activity_feed (h b)
              @ [username (h a) @ '' and '' @ username (h b) @ '' are now friends.'']
          \<and> friends (add_friend a b h a) = insert b (friends (h a))
          \<and> friends (add_friend a b h b) = insert a (friends (h b)))
       \<and> (b \<in> friends (h a) \<longrightarrow> add_friend a b h = h)"
proof (cases "b \<in> friends (h a)")
  case True
  then have "a \<in> friends (h b)" using assms(2) by simp
  with True show ?thesis by (simp add: add_friend_old)
next
  case False
  have new: "add_friend a b h = h
    (a := (h a)\<lparr>friends := insert b (friends (h a)),
                activity_feed := activity_feed (h a)
                  @ [username (h a) @ '' and '' @ username (h b) @ '' are now friends.'']\<rparr>,
     b := (h b)\<lparr>friends := insert a (friends (h b)),
                activity_feed := activity_feed (h b)
                  @ [username (h a) @ '' and '' @ username (h b) @ '' are now friends.'']\<rparr>)"
    using assms(1) False by (rule add_friend_new)
  have ab: "b \<in> friends (add_friend a b h a)" using assms(1) by (simp add: new)
  have ba: "a \<in> friends (add_friend a b h b)" by (simp add: new)
  have twice: "add_friend a b (add_friend a b h) = add_friend a b h"
    using ab by (rule add_friend_old)
  have rev_call: "add_friend b a (add_friend a b h) = add_friend a b h"
    using ba by (rule add_friend_old)
  have feeds: "activity_feed (add_friend a b h a) = activity_feed (h a)
        @ [username (h a) @ '' and '' @ username (h b) @ '' are now friends.'']
      \<and> activity_feed (add_friend a b h b) = activity_feed (h b)
        @ [username (h a) @ '' and '' @ username (h b) @ '' are now friends.'']
      \<and> friends (add_friend a b h a) = insert b (friends (h a))
      \<and> friends (add_friend a b h b) = insert a (friends (h b))"
    using assms(1) by (simp add: new)
  show ?thesis using twice rev_call feeds False by simp
qed

text \<open>
  \<open>bobby.add_friend(carol)\<close> and then \<open>carol.add_friend(bobby)\<close> on the fixture: one
  message in each feed, one friend in each set.
\<close>

theorem add_friend_idempotent_witness:
  "activity_feed (add_friend 1 0 (add_friend 0 1 (heap setUp)) 0)
     = [''Bobby and Carol are now friends.'']
   \<and> activity_feed (add_friend 1 0 (add_friend 0 1 (heap setUp)) 1)
     = [''Bobby and Carol are now friends.'']
   \<and> friends (add_friend 1 0 (add_friend 0 1 (heap setUp)) 0) = {1}
   \<and> friends (add_friend 1 0 (add_friend 0 1 (heap setUp)) 1) = {0}"
  using add_friend_idempotent [where a = 0 and b = 1 and h = "heap setUp"]
  by (simp add: setUp_heap bobby_def carol_def)

section \<open>Rounding\<close>

text \<open>\<open>ilog2\<close> is the binary exponent: \<open>2^e \<le> m < 2^(e+1)\<close> for every positive \<open>m\<close>.\<close>

lemma bitlen_bounds: "0 < n \<Longrightarrow> 2 ^ (bitlen n - 1) \<le> n \<and> n < 2 ^ bitlen n"
proof (induction n rule: bitlen.induct)
  case (1 n)
  show ?case
  proof (cases "n div 2 = 0")
    case True
    with "1.prems" have "n = 1" by presburger
    then show ?thesis by (simp add: bitlen.simps)
  next
    case False
    then have pos: "0 < n div 2" by simp
    have ih: "2 ^ (bitlen (n div 2) - 1) \<le> n div 2 \<and> n div 2 < 2 ^ bitlen (n div 2)"
      using "1.IH" "1.prems" pos by simp
    have bl: "bitlen n = Suc (bitlen (n div 2))" using "1.prems" by (subst bitlen.simps) simp
    have bpos: "0 < bitlen (n div 2)" using pos by (subst bitlen.simps) simp
    then obtain j where j: "bitlen (n div 2) = Suc j" by (cases "bitlen (n div 2)") auto
    from ih j have lo: "2 ^ j \<le> n div 2" and hi: "n div 2 < 2 * 2 ^ j" by simp_all
    from lo have "2 * 2 ^ j \<le> n" by presburger
    moreover from hi have "n < 2 * (2 * 2 ^ j)" by presburger
    ultimately show ?thesis by (simp add: bl j)
  qed
qed

lemma pow2_int: "pow2 (int k) = 2 ^ k"
  by (simp add: pow2_def)

lemma pow2_neg_int: "pow2 (- int k) = 1 / 2 ^ k"
  by (auto simp: pow2_def)

lemma real_pow2_le: "2 ^ k \<le> (n::nat) \<Longrightarrow> (2::real) ^ k \<le> real n"
  by simp

lemma real_lt_pow2: "(n::nat) < 2 ^ k \<Longrightarrow> real n + 1 \<le> (2::real) ^ k"
proof -
  assume "n < 2 ^ k"
  then have "Suc n \<le> 2 ^ k" by simp
  then have "real (Suc n) \<le> real (2 ^ k)" by (rule of_nat_mono)
  then show ?thesis by simp
qed

lemma ilog2_bounds:
  assumes "0 < m"
  shows "pow2 (ilog2 m) \<le> m \<and> m < pow2 (ilog2 m + 1)"
proof (cases "1 \<le> m")
  case True
  define n where "n = nat \<lfloor>m\<rfloor>"
  have n1: "0 < n" using True by (simp add: n_def)
  have nle: "real n \<le> m" using True by (simp add: n_def)
  have mlt: "m < real n + 1" using True unfolding n_def by linarith
  from bitlen_bounds [OF n1] have lo: "2 ^ (bitlen n - 1) \<le> n" and hi: "n < 2 ^ bitlen n"
    by simp_all
  have bpos: "0 < bitlen n" using n1 by (subst bitlen.simps) simp
  have il: "ilog2 m = int (bitlen n - 1)" using True bpos by (simp add: ilog2_def n_def)
  have il1: "ilog2 m + 1 = int (bitlen n)" using il bpos by simp
  have "(2::real) ^ (bitlen n - 1) \<le> m"
    using real_pow2_le [OF lo] nle by (rule order_trans)
  then have a: "pow2 (ilog2 m) \<le> m" by (simp only: il pow2_int)
  have "m < (2::real) ^ bitlen n"
    using mlt real_lt_pow2 [OF hi] by (rule less_le_trans)
  then have b: "m < pow2 (ilog2 m + 1)" by (simp only: il1 pow2_int)
  from a b show ?thesis ..
next
  case False
  then have m1: "m < 1" by simp
  define x where "x = 1 / m"
  have x1: "1 < x" using assms m1 by (simp add: x_def)
  have xpos: "0 < x" using x1 by simp
  have mx: "m = 1 / x" using assms by (simp add: x_def)
  define n where "n = nat (\<lceil>x\<rceil> - 1)"
  have c2: "2 \<le> \<lceil>x\<rceil>" using x1 by linarith
  have n1: "0 < n" using c2 by (simp add: n_def)
  have rn: "real n = of_int \<lceil>x\<rceil> - 1" using c2 by (simp add: n_def)
  have xle: "x \<le> real n + 1" unfolding rn by simp
  have nlt: "real n < x" unfolding rn by linarith
  from bitlen_bounds [OF n1] have lo: "2 ^ (bitlen n - 1) \<le> n" and hi: "n < 2 ^ bitlen n"
    by simp_all
  have bpos: "0 < bitlen n" using n1 by (subst bitlen.simps) simp
  have il: "ilog2 m = - int (bitlen n)" using False by (simp add: ilog2_def n_def x_def)
  have il1: "ilog2 m + 1 = - int (bitlen n - 1)" using il bpos by simp
  have xhi: "x \<le> (2::real) ^ bitlen n"
    using xle real_lt_pow2 [OF hi] by (rule order_trans)
  have "1 / (2::real) ^ bitlen n \<le> 1 / x"
    using xhi xpos by (simp add: frac_le)
  then have "1 / (2::real) ^ bitlen n \<le> m" by (simp only: mx [symmetric])
  then have a: "pow2 (ilog2 m) \<le> m" by (simp only: il pow2_neg_int)
  have xlo: "(2::real) ^ (bitlen n - 1) < x"
    using real_pow2_le [OF lo] nlt by (rule le_less_trans)
  have "1 / x < 1 / (2::real) ^ (bitlen n - 1)"
    using xlo by (simp add: frac_less2)
  then have "m < 1 / (2::real) ^ (bitlen n - 1)" by (simp only: mx [symmetric])
  then have b: "m < pow2 (ilog2 m + 1)" by (simp only: il1 pow2_neg_int)
  from a b show ?thesis ..
qed

lemma pow2_pos: "0 < pow2 e"
  by (simp add: pow2_def)

lemma round_half_even_of_int: "round_half_even (of_int z) = z"
  by (simp add: round_half_even_def)

text \<open>A representable number is rounded to itself.\<close>

lemma round_double_representable:
  assumes "representable r" and "r \<noteq> 0"
  shows "round_double r = Finite r"
proof -
  from assms have small: "abs r < pow2 1024"
    and whole: "of_int \<lfloor>abs r / ulp (abs r)\<rfloor> = abs r / ulp (abs r)"
    by (simp_all add: representable_def)
  have q: "ulp (abs r) \<noteq> 0" using pow2_pos [of "max (ilog2 (abs r)) (- 1022) - 52"]
    by (simp add: ulp_def)
  have rhe: "round_half_even (abs r / ulp (abs r)) = \<lfloor>abs r / ulp (abs r)\<rfloor>"
    using round_half_even_of_int [of "\<lfloor>abs r / ulp (abs r)\<rfloor>"] by (simp only: whole)
  have "quantize (abs r) (ulp (abs r)) = of_int \<lfloor>abs r / ulp (abs r)\<rfloor> * ulp (abs r)"
    by (simp only: quantize_def rhe)
  also have "\<dots> = abs r / ulp (abs r) * ulp (abs r)"
    by (simp only: whole)
  also have "\<dots> = abs r"
    using q by simp
  finally have "quantize (abs r) (ulp (abs r)) = abs r" .
  then show ?thesis using small assms(2) by (auto simp: round_double_def overflow_def)
qed

text \<open>Sums and differences that are representable are computed exactly.\<close>

lemma fadd_exact:
  assumes "is_finite x" and "is_finite y" and "representable (fval x + fval y)"
  shows "is_finite (fadd x y) \<and> fval (fadd x y) = fval x + fval y"
  using assms by (cases x; cases y) (auto simp: round_double_representable)

lemma fneg_finite: "is_finite y \<Longrightarrow> is_finite (fneg y) \<and> fval (fneg y) = - fval y"
  by (cases y) auto

lemma fsub_exact:
  assumes "is_finite x" and "is_finite y" and "representable (fval x - fval y)"
  shows "is_finite (fsub x y) \<and> fval (fsub x y) = fval x - fval y"
  using fadd_exact [of x "fneg y"] fneg_finite [of y] assms by (simp add: fsub_def)

lemma round_double_feq: "feq (round_double r) (round_double r)"
  by (simp add: round_double_def overflow_def)

text \<open>The sum of two finite floats depends on the exact sum of their values only.\<close>

lemma fadd_feq:
  assumes "is_finite x" "is_finite y" "is_finite x'" "is_finite y'"
    and "fval x + fval y = fval x' + fval y'"
  shows "feq (fadd x y) (fadd x' y')"
  using assms by (cases x; cases y; cases x'; cases y') (auto simp: round_double_feq)

lemma positive_amount_finite:
  "flt zero amt \<Longrightarrow> fge b amt \<Longrightarrow> is_finite b \<Longrightarrow> is_finite amt"
  by (cases amt; cases b) (auto simp: zero_def fge_def)

section \<open>Paying from the balance\<close>

lemma pay_balance_path:
  assumes "username (h self) \<noteq> username (h tgt)" and "flt zero amt"
    and "fge (balance (h self)) amt"
  shows "pay self tgt amt nt uid h =
           (Inr (Payment_init uid amt self tgt nt), snd (pay_with_balance self tgt amt nt uid h))"
  using assms(1,3) flt_zero_not_fle [OF assms(2)]
  by (simp add: pay_def pay_with_balance_def Let_def)

lemma pay_with_balance_balances:
  assumes "self \<noteq> tgt"
  shows "balance (snd (pay_with_balance self tgt amt nt uid h) self) = fsub (balance (h self)) amt
       \<and> balance (snd (pay_with_balance self tgt amt nt uid h) tgt) = fadd (balance (h tgt)) amt"
  using assms by (simp add: pay_with_balance_def Let_def append_feed_def add_to_balance_def)

text \<open>
  C2, as amended. For every successful balance-funded payment between two users of
  different usernames, the balance of the payer becomes the double nearest to its balance
  minus the amount, and the balance of the target the double nearest to its balance plus
  the amount. When both balances are finite and the exact difference and the exact sum
  are doubles themselves, the payer's balance decreases by exactly the amount, the
  target's increases by exactly the amount, and the total of the pair is conserved, both
  as real numbers and as the Python comparison
  \<open>actor.balance' + target.balance' == actor.balance + target.balance\<close>.
\<close>

theorem balance_payment_rounds:
  assumes "username (h self) \<noteq> username (h tgt)" and "flt zero amt"
    and "fge (balance (h self)) amt"
  shows "fst (pay self tgt amt nt uid h) = Inr (Payment_init uid amt self tgt nt)
       \<and> balance (snd (pay self tgt amt nt uid h) self) = fsub (balance (h self)) amt
       \<and> balance (snd (pay self tgt amt nt uid h) tgt) = fadd (balance (h tgt)) amt
       \<and> (is_finite (balance (h self)) \<and> is_finite (balance (h tgt))
            \<and> representable (fval (balance (h self)) - fval amt)
            \<and> representable (fval (balance (h tgt)) + fval amt) \<longrightarrow>
            is_finite (balance (snd (pay self tgt amt nt uid h) self))
          \<and> is_finite (balance (snd (pay self tgt amt nt uid h) tgt))
          \<and> fval (balance (snd (pay self tgt amt nt uid h) self))
              = fval (balance (h self)) - fval amt
          \<and> fval (balance (snd (pay self tgt amt nt uid h) tgt))
              = fval (balance (h tgt)) + fval amt
          \<and> fval (balance (snd (pay self tgt amt nt uid h) self))
              + fval (balance (snd (pay self tgt amt nt uid h) tgt))
              = fval (balance (h self)) + fval (balance (h tgt))
          \<and> feq (fadd (balance (snd (pay self tgt amt nt uid h) self))
                       (balance (snd (pay self tgt amt nt uid h) tgt)))
                 (fadd (balance (h self)) (balance (h tgt))))"
proof -
  have ne: "self \<noteq> tgt" using assms(1) by auto
  note path = pay_balance_path [OF assms, of nt uid]
  note bal = pay_with_balance_balances [OF ne, of amt nt uid h]
  have exact: "is_finite (fsub (balance (h self)) amt) \<and> is_finite (fadd (balance (h tgt)) amt)
      \<and> fval (fsub (balance (h self)) amt) = fval (balance (h self)) - fval amt
      \<and> fval (fadd (balance (h tgt)) amt) = fval (balance (h tgt)) + fval amt
      \<and> feq (fadd (fsub (balance (h self)) amt) (fadd (balance (h tgt)) amt))
             (fadd (balance (h self)) (balance (h tgt)))"
    if fin: "is_finite (balance (h self))" "is_finite (balance (h tgt))"
      and rep: "representable (fval (balance (h self)) - fval amt)"
        "representable (fval (balance (h tgt)) + fval amt)"
  proof -
    have fa: "is_finite amt" using assms(2,3) fin(1) by (rule positive_amount_finite)
    note s = fsub_exact [OF fin(1) fa rep(1)]
    note a = fadd_exact [OF fin(2) fa rep(2)]
    have "feq (fadd (fsub (balance (h self)) amt) (fadd (balance (h tgt)) amt))
             (fadd (balance (h self)) (balance (h tgt)))"
      using s a fin by (intro fadd_feq) simp_all
    with s a show ?thesis by simp
  qed
  show ?thesis using exact by (simp add: path bal)
qed

subsection \<open>Balances that round\<close>

lemma round_double_big: "round_double 9007199254740994 = Finite 9007199254740994"
  by (simp add: float_eval)

lemma round_double_1: "round_double 1 = Finite 1"
  by (simp add: float_eval)

lemma rounding_world_heap:
  "heap rounding_world = (\<lambda>r. unallocated)
     (0 := bobby\<lparr>balance := Finite 9007199254740994\<rparr>, 1 := carol\<lparr>balance := Finite 1\<rparr>)"
  by (simp add: rounding_world_def create_user_def MiniVenmo_init_def User_init_def
      is_valid_username_Bobby is_valid_username_Carol round_double_big round_double_1
      add_to_balance_def add_credit_card_def is_valid_credit_card_def truthy_def
      bobby_def carol_def)

lemma round_double_odd_down: "round_double 9007199254740993 = Finite 9007199254740992"
  by (simp add: float_eval)

lemma round_double_odd_up: "round_double 9007199254740995 = Finite 9007199254740996"
  by (simp add: float_eval)

lemma round_double_2: "round_double 2 = Finite 2"
  by (simp add: float_eval)

text \<open>
  C2 as stated fails. Bobby holds 9007199254740994.0 and Carol 1.0; Bobby pays Carol 1.0.
  The doubles next to 9007199254740993 are 9007199254740992 and 9007199254740994, and
  the tie goes to the even significand: Bobby's balance decreases by 2, not by 1, and
  the float sum of the pair is 9007199254740994.0 after the payment and
  9007199254740996.0 before it.
\<close>

theorem balance_conservation_counterexample:
  "fst (pay 0 1 (Finite 1) ''Coffee'' ''u1'' (heap rounding_world))
     = Inr (Payment_init ''u1'' (Finite 1) 0 1 ''Coffee'')
   \<and> balance (heap rounding_world 0) = Finite 9007199254740994
   \<and> balance (snd (pay 0 1 (Finite 1) ''Coffee'' ''u1'' (heap rounding_world)) 0)
       = Finite 9007199254740992
   \<and> balance (heap rounding_world 1) = Finite 1
   \<and> balance (snd (pay 0 1 (Finite 1) ''Coffee'' ''u1'' (heap rounding_world)) 1) = Finite 2
   \<and> \<not> feq (fadd (balance (snd (pay 0 1 (Finite 1) ''Coffee'' ''u1'' (heap rounding_world)) 0))
                 (balance (snd (pay 0 1 (Finite 1) ''Coffee'' ''u1'' (heap rounding_world)) 1)))
            (fadd (balance (heap rounding_world 0)) (balance (heap rounding_world 1)))"
  by (simp add: pay_def pay_with_balance_def Let_def append_feed_def add_to_balance_def
      Payment_init_def rounding_world_heap bobby_def carol_def zero_def fge_def fsub_def
      round_double_odd_down round_double_odd_up round_double_2 round_double_big)

text \<open>The payment of the unit test \<open>test_payment_with_balance\<close>: 0.00 and 15.00.\<close>

lemma setUp_balances:
  "balance (heap setUp 0) = Finite 5" "balance (heap setUp 1) = Finite 10"
  "username (heap setUp 0) = ''Bobby''" "username (heap setUp 1) = ''Carol''"
  "balance (heap setUp (Suc 0)) = Finite 10" "username (heap setUp (Suc 0)) = ''Carol''"
  by (simp_all add: setUp_heap bobby_def carol_def)

lemma round_double_15: "round_double 15 = Finite 15"
  by (simp add: float_eval)

theorem balance_payment_rounds_witness:
  "fst (pay 0 1 (Finite 5) ''Coffee'' ''u1'' (heap setUp))
     = Inr (Payment_init ''u1'' (Finite 5) 0 1 ''Coffee'')
   \<and> is_finite (balance (snd (pay 0 1 (Finite 5) ''Coffee'' ''u1'' (heap setUp)) 0))
   \<and> fval (balance (snd (pay 0 1 (Finite 5) ''Coffee'' ''u1'' (heap setUp)) 0)) = 0
   \<and> fval (balance (snd (pay 0 1 (Finite 5) ''Coffee'' ''u1'' (heap setUp)) 1)) = 15"
proof -
  have r0: "representable 0" by (simp add: representable_def)
  have r15: "representable 15"
    by (simp add: representable_def ulp_def ilog2_def pow2_def bitlen.simps)
  have pre: "username (heap setUp 0) \<noteq> username (heap setUp 1)" "flt zero (Finite 5)"
    "fge (balance (heap setUp 0)) (Finite 5)"
    by (simp_all add: setUp_balances zero_def fge_def)
  from balance_payment_rounds [where h = "heap setUp" and self = 0 and tgt = 1
      and amt = "Finite 5" and nt = "''Coffee''" and uid = "''u1''"] pre r0 r15
  show ?thesis
    by (simp add: setUp_balances fsub_def round_double_15)
qed


section \<open>Paying by card\<close>

lemma flt_not_fge: "flt b amt \<Longrightarrow> \<not> fge b amt"
  by (cases b; cases amt) (auto simp: fge_def)

lemma pay_card_path:
  assumes "username (h self) \<noteq> username (h tgt)" and "flt zero amt"
    and "\<not> fge (balance (h self)) amt" and "credit_card_number (h self) \<noteq> None"
    and "card_ok (h self)"
  shows "pay self tgt amt nt uid h =
           (Inr (Payment_init uid amt self tgt nt), snd (pay_with_card self tgt amt nt uid h))"
  using assms(1,3,4) flt_zero_not_fle [OF assms(2)] card_ok_truthy [OF assms(5)]
  by (simp add: pay_def pay_with_card_def Let_def)

lemma pay_with_card_balances:
  assumes "self \<noteq> tgt"
  shows "balance (snd (pay_with_card self tgt amt nt uid h) self) = balance (h self)
       \<and> balance (snd (pay_with_card self tgt amt nt uid h) tgt) = fadd (balance (h tgt)) amt"
  using assms
  by (simp add: pay_with_card_def Let_def append_feed_def add_to_balance_def
      charge_credit_card_def)

text \<open>
  C3, as amended. For every successful card-funded payment (different usernames, a
  card on file, the balance of the payer less than the amount), the balance of the payer is
  unchanged and the balance of the target becomes the double nearest to its balance plus
  the amount. When the target's balance and the amount are finite and the exact sum is a
  double itself, the target's balance increases by exactly the amount.
\<close>

theorem card_payment_rounds:
  assumes "username (h self) \<noteq> username (h tgt)" and "flt zero amt"
    and "flt (balance (h self)) amt" and "credit_card_number (h self) \<noteq> None"
    and "card_ok (h self)"
  shows "fst (pay self tgt amt nt uid h) = Inr (Payment_init uid amt self tgt nt)
       \<and> balance (snd (pay self tgt amt nt uid h) self) = balance (h self)
       \<and> balance (snd (pay self tgt amt nt uid h) tgt) = fadd (balance (h tgt)) amt
       \<and> (is_finite (balance (h tgt)) \<and> is_finite amt
            \<and> representable (fval (balance (h tgt)) + fval amt) \<longrightarrow>
            is_finite (balance (snd (pay self tgt amt nt uid h) tgt))
          \<and> fval (balance (snd (pay self tgt amt nt uid h) tgt))
              = fval (balance (h tgt)) + fval amt)"
proof -
  have ne: "self \<noteq> tgt" using assms(1) by auto
  have nb: "\<not> fge (balance (h self)) amt" using assms(3) by (rule flt_not_fge)
  note path = pay_card_path [OF assms(1,2) nb assms(4,5), of nt uid]
  note bal = pay_with_card_balances [OF ne, of amt nt uid h]
  show ?thesis using fadd_exact [of "balance (h tgt)" amt] by (simp add: path bal)
qed

subsection \<open>A credit that rounds\<close>

lemma rounding_world_facts:
  "balance (heap rounding_world 0) = Finite 9007199254740994"
  "balance (heap rounding_world 1) = Finite 1"
  "balance (heap rounding_world (Suc 0)) = Finite 1"
  "username (heap rounding_world 0) = ''Bobby''"
  "username (heap rounding_world 1) = ''Carol''"
  "username (heap rounding_world (Suc 0)) = ''Carol''"
  "credit_card_number (heap rounding_world 1) = Some ''4242424242424242''"
  "credit_card_number (heap rounding_world (Suc 0)) = Some ''4242424242424242''"
  by (simp_all add: rounding_world_heap bobby_def carol_def)

lemma round_double_tie: "round_double 9007199254740997 = Finite 9007199254740996"
  by (simp add: float_eval)

text \<open>
  C3 as stated fails. Carol, with 1.0 and a card, pays 3.0 to Bobby, who holds
  9007199254740994.0. The exact sum 9007199254740997 lies halfway between the doubles
  9007199254740996 and 9007199254740998: Bobby's balance increases by 2, not by 3.
\<close>

theorem card_payment_counterexample:
  "fst (pay 1 0 (Finite 3) ''Lunch'' ''u2'' (heap rounding_world))
     = Inr (Payment_init ''u2'' (Finite 3) 1 0 ''Lunch'')
   \<and> flt (balance (heap rounding_world 1)) (Finite 3)
   \<and> credit_card_number (heap rounding_world 1) = Some ''4242424242424242''
   \<and> balance (heap rounding_world 0) = Finite 9007199254740994
   \<and> balance (snd (pay 1 0 (Finite 3) ''Lunch'' ''u2'' (heap rounding_world)) 0)
       = Finite 9007199254740996"
  by (simp add: pay_def pay_with_card_def Let_def append_feed_def add_to_balance_def
      charge_credit_card_def Payment_init_def rounding_world_facts zero_def fge_def truthy_def
      round_double_tie)

text \<open>The payment of the unit test \<open>test_payment_with_card\<close>: Bobby ends with 20.00.\<close>

lemma setUp_cards:
  "credit_card_number (heap setUp 0) = Some ''4111111111111111''"
  "credit_card_number (heap setUp 1) = Some ''4242424242424242''"
  "credit_card_number (heap setUp (Suc 0)) = Some ''4242424242424242''"
  by (simp_all add: setUp_heap bobby_def carol_def)

lemma round_double_20: "round_double 20 = Finite 20"
  by (simp add: float_eval)

theorem card_payment_rounds_witness:
  "fst (pay 1 0 (Finite 15) ''Lunch'' ''u2'' (heap setUp))
     = Inr (Payment_init ''u2'' (Finite 15) 1 0 ''Lunch'')
   \<and> balance (snd (pay 1 0 (Finite 15) ''Lunch'' ''u2'' (heap setUp)) 1) = Finite 10
   \<and> fval (balance (snd (pay 1 0 (Finite 15) ''Lunch'' ''u2'' (heap setUp)) 0)) = 20"
proof -
  have r20: "representable 20"
    by (simp add: representable_def ulp_def ilog2_def pow2_def bitlen.simps)
  have pre: "username (heap setUp 1) \<noteq> username (heap setUp 0)" "flt zero (Finite 15)"
    "flt (balance (heap setUp 1)) (Finite 15)" "credit_card_number (heap setUp 1) \<noteq> None"
    "card_ok (heap setUp 1)"
    by (simp_all add: setUp_balances setUp_cards zero_def card_ok_def is_valid_credit_card_def)
  from card_payment_rounds [where h = "heap setUp" and self = 1 and tgt = 0
      and amt = "Finite 15" and nt = "''Lunch''" and uid = "''u2''"] pre r20
  show ?thesis
    by (simp add: setUp_balances round_double_20)
qed


section \<open>The feed entry of a payment\<close>

lemma digit_char_digit: "d < 10 \<Longrightarrow> digit_char d \<in> set ''0123456789''"
proof -
  assume "d < 10"
  then have "d \<in> {0, 1, 2, 3, 4, 5, 6, 7, 8, 9}" by auto
  then show ?thesis by (auto simp: digit_char_def)
qed

lemma show_nat_digits: "set (show_nat n) \<subseteq> set ''0123456789''"
proof (induction n rule: show_nat.induct)
  case (1 n)
  show ?case
  proof (cases "n < 10")
    case True
    then show ?thesis using digit_char_digit [of n] by (subst show_nat.simps) simp
  next
    case False
    have "n mod 10 < 10" by simp
    then have "digit_char (n mod 10) \<in> set ''0123456789''" by (rule digit_char_digit)
    then show ?thesis using False "1.IH" by (subst show_nat.simps) simp
  qed
qed

lemma show_nat_not_empty: "show_nat n \<noteq> []"
  by (subst show_nat.simps) simp

text \<open>A magnitude is rendered as digits, a point and two digits.\<close>

lemma fixed2_shape:
  "\<exists>ds d1 d2. fixed2 m = ds @ ''.'' @ [d1, d2] \<and> ds \<noteq> []
     \<and> set ds \<subseteq> set ''0123456789'' \<and> d1 \<in> set ''0123456789'' \<and> d2 \<in> set ''0123456789''"
proof -
  have a: "digit_char (hundredths m div 10 mod 10) \<in> set ''0123456789''"
    by (rule digit_char_digit) simp
  have b: "digit_char (hundredths m mod 10) \<in> set ''0123456789''"
    by (rule digit_char_digit) simp
  show ?thesis
    unfolding fixed2_def using a b show_nat_digits show_nat_not_empty by blast
qed

lemma positive_finite_format:
  assumes "is_finite amt" and "\<not> fle amt zero"
  shows "format_2f amt = fixed2 (fval amt)"
  using assms by (cases amt) (auto simp: zero_def)

lemma pay_success:
  assumes "fst (pay self tgt amt nt uid h) = Inr p"
  shows "username (h self) \<noteq> username (h tgt) \<and> \<not> fle amt zero
       \<and> (snd (pay self tgt amt nt uid h) = snd (pay_with_balance self tgt amt nt uid h)
          \<or> snd (pay self tgt amt nt uid h) = snd (pay_with_card self tgt amt nt uid h))"
  using assms by (auto simp: pay_def case_prod_beta split: if_splits)

lemma pay_with_balance_feeds:
  assumes "self \<noteq> tgt"
  shows "activity_feed (snd (pay_with_balance self tgt amt nt uid h) self)
           = activity_feed (h self) @ [username (h self) @ '' paid '' @ username (h tgt)
               @ '' $'' @ format_2f amt @ '' for '' @ nt]
       \<and> activity_feed (snd (pay_with_balance self tgt amt nt uid h) tgt)
           = activity_feed (h tgt) @ [username (h self) @ '' paid '' @ username (h tgt)
               @ '' $'' @ format_2f amt @ '' for '' @ nt]"
  using assms
  by (simp add: pay_with_balance_def Let_def append_feed_def add_to_balance_def
      Payment_str_def Payment_init_def)

lemma pay_with_card_feeds:
  assumes "self \<noteq> tgt"
  shows "activity_feed (snd (pay_with_card self tgt amt nt uid h) self)
           = activity_feed (h self) @ [username (h self) @ '' paid '' @ username (h tgt)
               @ '' $'' @ format_2f amt @ '' for '' @ nt]
       \<and> activity_feed (snd (pay_with_card self tgt amt nt uid h) tgt)
           = activity_feed (h tgt) @ [username (h self) @ '' paid '' @ username (h tgt)
               @ '' $'' @ format_2f amt @ '' for '' @ nt]"
  using assms
  by (simp add: pay_with_card_def Let_def append_feed_def add_to_balance_def
      Payment_str_def Payment_init_def charge_credit_card_def)

text \<open>
  C9, as amended. Every successful payment appends, at the end of the feed of the payer
  and at the end of the feed of the target, the same string
  \<open>"{actor.username} paid {target.username} ${amount:.2f} for {note}"\<close>. When the amount
  is finite, it is rendered as digits, a point and exactly two decimal digits.
\<close>

theorem payment_feed_entry:
  assumes "fst (pay self tgt amt nt uid h) = Inr p"
  shows "retrieve_feed self (snd (pay self tgt amt nt uid h))
           = retrieve_feed self h @ [username (h self) @ '' paid '' @ username (h tgt)
               @ '' $'' @ format_2f amt @ '' for '' @ nt]
       \<and> retrieve_feed tgt (snd (pay self tgt amt nt uid h))
           = retrieve_feed tgt h @ [username (h self) @ '' paid '' @ username (h tgt)
               @ '' $'' @ format_2f amt @ '' for '' @ nt]
       \<and> (is_finite amt \<longrightarrow>
            (\<exists>ds d1 d2. format_2f amt = ds @ ''.'' @ [d1, d2] \<and> ds \<noteq> []
               \<and> set ds \<subseteq> set ''0123456789''
               \<and> d1 \<in> set ''0123456789'' \<and> d2 \<in> set ''0123456789''))"
proof -
  note s = pay_success [OF assms]
  have ne: "self \<noteq> tgt" using s by auto
  have feeds: "activity_feed (snd (pay self tgt amt nt uid h) self)
           = activity_feed (h self) @ [username (h self) @ '' paid '' @ username (h tgt)
               @ '' $'' @ format_2f amt @ '' for '' @ nt]
       \<and> activity_feed (snd (pay self tgt amt nt uid h) tgt)
           = activity_feed (h tgt) @ [username (h self) @ '' paid '' @ username (h tgt)
               @ '' $'' @ format_2f amt @ '' for '' @ nt]"
    using s pay_with_balance_feeds [OF ne, of amt nt uid h]
      pay_with_card_feeds [OF ne, of amt nt uid h] by auto
  have shape: "\<exists>ds d1 d2. format_2f amt = ds @ ''.'' @ [d1, d2] \<and> ds \<noteq> []
               \<and> set ds \<subseteq> set ''0123456789''
               \<and> d1 \<in> set ''0123456789'' \<and> d2 \<in> set ''0123456789''"
    if "is_finite amt"
    using positive_finite_format [OF that] s fixed2_shape [of "fval amt"] by simp
  show ?thesis using feeds shape by (simp add: retrieve_feed_def)
qed

subsection \<open>Rendered payments\<close>

lemma fixed2_5: "fixed2 5 = ''5.00''"
  by (simp add: fixed2_def hundredths_def round_half_even_def digit_char_def)

lemma fixed2_15: "fixed2 15 = ''15.00''"
  by (simp add: fixed2_def hundredths_def round_half_even_def digit_char_def)

text \<open>
  C9 as stated fails. On the fixture, Carol, with 10.00 and a card, pays Bobby
  \<open>float("inf")\<close>: the payment succeeds, and the entry appended to both feeds renders the
  amount as \<open>inf\<close>, with no decimal digit.
\<close>

theorem payment_format_counterexample:
  "fst (pay 1 0 (Infinity False) ''Lunch'' ''u2'' (heap setUp))
     = Inr (Payment_init ''u2'' (Infinity False) 1 0 ''Lunch'')
   \<and> retrieve_feed 1 (snd (pay 1 0 (Infinity False) ''Lunch'' ''u2'' (heap setUp)))
       = [''Carol paid Bobby $inf for Lunch'']
   \<and> retrieve_feed 0 (snd (pay 1 0 (Infinity False) ''Lunch'' ''u2'' (heap setUp)))
       = [''Carol paid Bobby $inf for Lunch'']"
  by (simp add: pay_def pay_with_card_def Let_def append_feed_def add_to_balance_def
      charge_credit_card_def Payment_init_def Payment_str_def retrieve_feed_def
      setUp_heap bobby_def carol_def zero_def fge_def truthy_def)

text \<open>The feeds of the unit test \<open>test_feed\<close>, in the order of the payments.\<close>

lemma after_coffee_heap:
  "after_coffee = (\<lambda>r. unallocated)
     (0 := bobby\<lparr>balance := Finite 0, activity_feed := [''Bobby paid Carol $5.00 for Coffee'']\<rparr>,
      1 := carol\<lparr>balance := Finite 15,
                 activity_feed := [''Bobby paid Carol $5.00 for Coffee'']\<rparr>)"
  by (simp add: after_coffee_def pay_def pay_with_balance_def Let_def append_feed_def
      add_to_balance_def Payment_init_def Payment_str_def setUp_heap bobby_def carol_def
      zero_def fge_def fsub_def round_double_15 fixed2_5 fun_upd_twist)

theorem payment_feed_entry_witness:
  "fst (pay 1 0 (Finite 15) ''Lunch'' ''u2'' after_coffee)
     = Inr (Payment_init ''u2'' (Finite 15) 1 0 ''Lunch'')
   \<and> retrieve_feed 0 after_lunch
     = [''Bobby paid Carol $5.00 for Coffee'', ''Carol paid Bobby $15.00 for Lunch'']
   \<and> retrieve_feed 1 after_lunch
     = [''Bobby paid Carol $5.00 for Coffee'', ''Carol paid Bobby $15.00 for Lunch'']"
proof -
  have ok: "fst (pay 1 0 (Finite 15) ''Lunch'' ''u2'' after_coffee)
     = Inr (Payment_init ''u2'' (Finite 15) 1 0 ''Lunch'')"
    by (simp add: pay_def pay_with_balance_def Let_def after_coffee_heap bobby_def carol_def
        zero_def fge_def)
  have before: "retrieve_feed 0 after_coffee = [''Bobby paid Carol $5.00 for Coffee'']"
    "retrieve_feed 1 after_coffee = [''Bobby paid Carol $5.00 for Coffee'']"
    "username (after_coffee 1) = ''Carol''" "username (after_coffee 0) = ''Bobby''"
    by (simp_all add: retrieve_feed_def after_coffee_heap bobby_def carol_def)
  from payment_feed_entry [OF ok] ok before show ?thesis
    by (simp add: after_lunch_def fixed2_15)
qed


section \<open>Usernames\<close>

text \<open>The class of the source is the class of the spec and the backslash.\<close>

lemma username_char_spec:
  "username_char c = (spec_username_char c \<or> c = CHR 0x5C)"
  unfolding username_char_def spec_username_char_def Let_def by blast

text \<open>The match, without the list of the repetition counts.\<close>

lemma is_valid_username_iff:
  "is_valid_username s =
     (\<exists>k. 4 \<le> k \<and> k \<le> 15 \<and> k \<le> length s \<and> list_all username_char (take k s)
          \<and> dollar (drop k s))"
proof -
  have "(k \<in> set [4..<16]) = (4 \<le> k \<and> k \<le> (15::nat))" for k
    unfolding set_upt atLeastLessThan_iff by arith
  then show ?thesis unfolding is_valid_username_def list_ex_iff by blast
qed

text \<open>
  Every username of the spec's pattern is accepted, and on strings with neither a
  backslash nor a newline the source and the spec's pattern agree.
\<close>

lemma spec_accepted: "spec_isValidUsername s \<Longrightarrow> is_valid_username s"
  unfolding is_valid_username_iff spec_isValidUsername_def
  by (rule exI [of _ "length s"]) (simp add: dollar_def list_all_iff username_char_spec)

lemma is_valid_username_agrees:
  assumes "CHR 0x5C \<notin> set s" and "CHR 0x0A \<notin> set s"
  shows "is_valid_username s = spec_isValidUsername s"
proof
  assume "is_valid_username s"
  then obtain k where k: "4 \<le> k" "k \<le> 15" "k \<le> length s"
      "list_all username_char (take k s)" "dollar (drop k s)"
    unfolding is_valid_username_iff by blast
  have "drop k s \<noteq> [CHR 0x0A]"
  proof
    assume "drop k s = [CHR 0x0A]"
    then have "CHR 0x0A \<in> set (drop k s)" by simp
    then have "CHR 0x0A \<in> set s" by (rule in_set_dropD)
    with assms(2) show False by simp
  qed
  with k(5) have "drop k s = []" by (simp add: dollar_def)
  with k(3) have "k = length s" by simp
  with k have "4 \<le> length s" "length s \<le> 15" "list_all username_char s" by simp_all
  then show "spec_isValidUsername s"
    using assms(1) by (auto simp: spec_isValidUsername_def list_all_iff username_char_spec)
next
  assume "spec_isValidUsername s"
  then show "is_valid_username s" by (rule spec_accepted)
qed

text \<open>
  C5. The claim is that \<open>isValidUsername\<close> holds exactly of the strings of 4 to 15
  letters, digits, underscores and hyphens. The source accepts more: the five characters
  a, b, backslash, c, d, since the class of the raw pattern holds an escaped backslash;
  and \<open>abcd\<close> followed by a newline, since \<open>$\<close> also matches before a final newline.
\<close>

theorem is_valid_username_accepts_backslash:
  "is_valid_username [CHR ''a'', CHR ''b'', CHR 0x5C, CHR ''c'', CHR ''d'']
   \<and> \<not> spec_isValidUsername [CHR ''a'', CHR ''b'', CHR 0x5C, CHR ''c'', CHR ''d'']
   \<and> is_valid_username [CHR ''a'', CHR ''b'', CHR ''c'', CHR ''d'', CHR 0x0A]
   \<and> \<not> spec_isValidUsername [CHR ''a'', CHR ''b'', CHR ''c'', CHR ''d'', CHR 0x0A]"
proof -
  have a: "is_valid_username [CHR ''a'', CHR ''b'', CHR 0x5C, CHR ''c'', CHR ''d'']"
    by (simp add: is_valid_username_def username_char_def dollar_def)
  have b: "\<not> spec_isValidUsername [CHR ''a'', CHR ''b'', CHR 0x5C, CHR ''c'', CHR ''d'']"
    by (simp add: spec_isValidUsername_def spec_username_char_def)
  have c: "is_valid_username [CHR ''a'', CHR ''b'', CHR ''c'', CHR ''d'', CHR 0x0A]"
    by (simp add: is_valid_username_def username_char_def dollar_def)
  have d: "\<not> spec_isValidUsername [CHR ''a'', CHR ''b'', CHR ''c'', CHR ''d'', CHR 0x0A]"
    by (simp add: spec_isValidUsername_def spec_username_char_def)
  from a b c d show ?thesis by blast
qed


section \<open>Paying oneself\<close>

text \<open>
  C6. For every user, amount and note, \<open>pay\<close> with the user itself as the target raises
  the exception of a self-payment and leaves the store as it was, whatever the balance
  and the card of the user are. The amount is arbitrary, so the check comes before the
  check of the amount: a non-positive amount gets the same exception.
\<close>

theorem pay_self_fails:
  "pay self self amt nt uid h = (Inl (PaymentException ''User cannot pay themselves.''), h)"
  by (simp add: pay_def)

end
